theory Spec2Isabelle
  imports Complex_Main
begin

section \<open>The Stokvel listener agent (src/listener.py)\<close>

text \<open>
  The agent talks to four collaborators: the chain node (web3), the rule database
  (SQLAlchemy), the notification socket (socketio) and the text generator. None of them
  is code of the repository, so each call is a field of an environment record. A call
  takes the current state \<open>'w\<close> of the outside world and returns either an exception or a
  value, together with the next world; nothing is assumed about how the world answers.

  Python floats are modelled by the real number they denote. The two roundings the code
  performs, \<open>float(Decimal)\<close> and \<open>w3.to_wei(float)\<close>, are fields of the environment as
  well, so that no theorem below depends on how they round.
\<close>

subsection \<open>Data\<close>

type_synonym address = string

datatype exn = Exception string

text \<open>A row of table \<open>auto_fund_rule\<close> (class \<open>AutoFundRule\<close>).\<close>

record auto_fund_rule =
  rule_id :: nat
  user_address :: address
  max_fund_amount :: real
  min_savings_balance :: real
  is_active :: bool

text \<open>
  The tuple returned by \<open>getLoan\<close>: the code reads component 1 as the amount requested,
  2 as the amount funded, 5, 6 and 7 as the flags and the next instalment index.
\<close>

record loan_data =
  loan_borrower :: address
  amount_requested :: int
  amount_funded :: int
  collateral_locked :: int
  total_interest :: int
  loan_is_active :: bool
  is_defaulted :: bool
  next_installment_index :: nat
  created_at :: int

text \<open>
  The tuple returned by \<open>getMember\<close>; component 5 is the available savings (component
  1 is read nowhere in the repository).
\<close>

record member_data =
  member_is_active :: bool
  member_component_1 :: int
  total_savings :: int
  amount_lent_out :: int
  locked_collateral :: int
  available_savings :: int

text \<open>The tuple returned by \<open>getInstallment\<close>; component 0 is the due date.\<close>

record installment_data =
  due_date :: int
  amount_due :: int
  late_fees :: int
  is_paid :: bool

text \<open>The arguments of the four watched events.\<close>

record loan_requested_args =
  loanId :: nat
  borrower :: address

record application_args =
  applicant :: address

record loan_funded_args =
  funded_loanId :: nat
  lender :: address
  funded_amount :: int

record loan_disbursed_args =
  disbursed_loanId :: nat
  disbursed_borrower :: address
  disbursed_amount :: int

text \<open>
  The transaction \<open>fundLoan(loan_id, fund_amount_wei).build_transaction(tx_data)\<close>: the
  arguments of the call and the entries of \<open>tx_data\<close>. Building (which asks the node for
  the gas) and signing can raise; they do not change these fields.
\<close>

record fund_tx =
  tx_loan_id :: nat
  tx_amount_wei :: int
  tx_from :: address
  tx_nonce :: nat
  tx_gas_price :: nat

text \<open>
  Notifications. The f-strings of the source are kept as the template and its arguments;
  the second component is the \<open>'type'\<close> entry of the payload, absent for applications.
\<close>

datatype ntype = info | success | alert

datatype message =
    AutoFundInvested real nat
  | AutoFundFailed nat
  | SeverelyOverdue nat
  | ApplicationText string
  | LoanReceivedFunding nat real
  | LoanFullyDisbursed nat real

datatype notification = Notification message "ntype option"

text \<open>
  What the agent does to the outside, in the order it does it. \<open>SendRawTransaction\<close> and
  \<open>Emit\<close> are recorded when the call is made, whether it then returns or raises;
  \<open>Receipt\<close> is recorded when \<open>wait_for_transaction_receipt\<close> returns, with the status
  it returned.
\<close>

datatype effect =
    SendRawTransaction fund_tx
  | Receipt int
  | Emit notification
  | Sleep nat

subsection \<open>The environment\<close>

record 'w env =
  agent_address :: address
  query_rules :: "'w \<Rightarrow> (exn + auto_fund_rule list) \<times> 'w"
  getLoan :: "nat \<Rightarrow> 'w \<Rightarrow> (exn + loan_data) \<times> 'w"
  getMember :: "address \<Rightarrow> 'w \<Rightarrow> (exn + member_data) \<times> 'w"
  getInstallment :: "nat \<Rightarrow> nat \<Rightarrow> 'w \<Rightarrow> (exn + installment_data) \<times> 'w"
  getTotalLoans :: "'w \<Rightarrow> (exn + nat) \<times> 'w"
  from_wei :: "int \<Rightarrow> exn + real"
  float_of :: "real \<Rightarrow> real"
  to_wei :: "real \<Rightarrow> exn + int"
  get_transaction_count :: "address \<Rightarrow> 'w \<Rightarrow> (exn + nat) \<times> 'w"
  gas_price :: "'w \<Rightarrow> (exn + nat) \<times> 'w"
  build_transaction :: "fund_tx \<Rightarrow> 'w \<Rightarrow> (exn + unit) \<times> 'w"
  sign_transaction :: "fund_tx \<Rightarrow> exn + unit"
  send_raw_transaction :: "fund_tx \<Rightarrow> 'w \<Rightarrow> (exn + nat) \<times> 'w"
  wait_for_transaction_receipt :: "nat \<Rightarrow> 'w \<Rightarrow> (exn + int) \<times> 'w"
  sio_emit :: "notification \<Rightarrow> 'w \<Rightarrow> (exn + unit) \<times> 'w"
  model_available :: bool
  generate_content :: "'w \<Rightarrow> (exn + string) \<times> 'w"
  time_time :: "'w \<Rightarrow> real \<times> 'w"
  time_sleep :: "nat \<Rightarrow> 'w \<Rightarrow> 'w"
  loan_requested_entries :: "'w \<Rightarrow> (exn + loan_requested_args list) \<times> 'w"
  application_entries :: "'w \<Rightarrow> (exn + application_args list) \<times> 'w"
  loan_funded_entries :: "'w \<Rightarrow> (exn + loan_funded_args list) \<times> 'w"
  loan_disbursed_entries :: "'w \<Rightarrow> (exn + loan_disbursed_args list) \<times> 'w"

subsection \<open>Sequencing calls that may raise\<close>

text \<open>
  A piece of code run in world \<open>w\<close> gives its result (an exception or a value), the world
  it leaves and the effects it had. \<open>andthen\<close> is the semicolon of the source: an
  exception in the first part skips the second.
\<close>

type_synonym ('w, 'a) action = "'w \<Rightarrow> (exn + 'a) \<times> 'w \<times> effect list"

definition ret :: "'a \<Rightarrow> ('w, 'a) action" where
  "ret x w = (Inr x, w, [])"

definition call :: "('w \<Rightarrow> (exn + 'a) \<times> 'w) \<Rightarrow> ('w, 'a) action" where
  "call f w = (case f w of (r, w') \<Rightarrow> (r, w', []))"

definition compute :: "exn + 'a \<Rightarrow> ('w, 'a) action" where
  "compute r w = (r, w, [])"

definition record_effect :: "effect \<Rightarrow> ('w, unit) action" where
  "record_effect e w = (Inr (), w, [e])"

definition andthen :: "('w, 'a) action \<Rightarrow> ('a \<Rightarrow> ('w, 'b) action) \<Rightarrow> ('w, 'b) action" where
  "andthen m f w =
     (case m w of
        (Inl e, w', es) \<Rightarrow> (Inl e, w', es)
      | (Inr x, w', es) \<Rightarrow> (case f x w' of (r, w'', es') \<Rightarrow> (r, w'', es @ es')))"

definition emit :: "'w env \<Rightarrow> notification \<Rightarrow> ('w, unit) action" where
  "emit env n = andthen (record_effect (Emit n)) (\<lambda>_. call (sio_emit env n))"

text \<open>\<open>float(w3.from_wei(x, 'ether'))\<close>\<close>

definition float_from_wei :: "'w env \<Rightarrow> int \<Rightarrow> exn + real" where
  "float_from_wei env x =
     (case from_wei env x of Inl e \<Rightarrow> Inl e | Inr d \<Rightarrow> Inr (float_of env d))"

text \<open>\<open>str.lower\<close> on the ASCII strings that addresses are.\<close>

definition lower_char :: "char \<Rightarrow> char" where
  "lower_char c =
     (let n = (of_char c :: nat) in if 65 \<le> n \<and> n \<le> 90 then char_of (n + 32) else c)"

definition lower :: "string \<Rightarrow> string" where
  "lower s = map lower_char s"

subsection \<open>handle_auto_fund\<close>

text \<open>How an iteration of the \<open>for rule in active_rules\<close> loop ends.\<close>

datatype control = Next | Halt

text \<open>
  The body of the \<open>try\<close> for one rule, with \<open>amount_needed_wei\<close> on entry. It returns
  how the iteration ends and the new \<open>amount_needed_wei\<close>. The only assignment to that
  variable is followed by a \<open>print\<close> and the \<open>break\<close>, so when the body raises the
  variable still has its value on entry.
\<close>

definition rule_body ::
  "'w env \<Rightarrow> nat \<Rightarrow> address \<Rightarrow> auto_fund_rule \<Rightarrow> int \<Rightarrow> ('w, control \<times> int) action" where
  "rule_body env loan_id borrower_address rule amount_needed_wei =
    (let potential_lender_address = user_address rule in
     if lower potential_lender_address = lower borrower_address
     then ret (Next, amount_needed_wei)
     else
       andthen (call (getMember env potential_lender_address)) (\<lambda>lender_data.
       andthen (compute (float_from_wei env (available_savings lender_data))) (\<lambda>available_savings_ether.
       andthen (compute (float_from_wei env amount_needed_wei)) (\<lambda>amount_needed_ether.
       if available_savings_ether \<ge> min_savings_balance rule then
         (let fund_amount_ether = min (max_fund_amount rule) amount_needed_ether in
          if fund_amount_ether > 0 \<and> available_savings_ether \<ge> fund_amount_ether then
            andthen (compute (to_wei env fund_amount_ether)) (\<lambda>fund_amount_wei.
            andthen (call (get_transaction_count env (agent_address env))) (\<lambda>nonce.
            andthen (call (gas_price env)) (\<lambda>price.
            (let fund_tx = \<lparr>tx_loan_id = loan_id, tx_amount_wei = fund_amount_wei,
                           tx_from = agent_address env, tx_nonce = nonce, tx_gas_price = price\<rparr> in
            andthen (call (build_transaction env fund_tx)) (\<lambda>_.
            andthen (compute (sign_transaction env fund_tx)) (\<lambda>_.
            andthen (record_effect (SendRawTransaction fund_tx)) (\<lambda>_.
            andthen (call (send_raw_transaction env fund_tx)) (\<lambda>tx_hash.
            andthen (call (wait_for_transaction_receipt env tx_hash)) (\<lambda>status.
            andthen (record_effect (Receipt status)) (\<lambda>_.
            if status = 1 then
              andthen (emit env (Notification (AutoFundInvested fund_amount_ether loan_id) (Some success))) (\<lambda>_.
              (let needed = amount_needed_wei - fund_amount_wei in
               if needed \<le> 0 then ret (Halt, needed) else ret (Next, needed)))
            else
              andthen (emit env (Notification (AutoFundFailed loan_id) (Some alert))) (\<lambda>_.
              ret (Next, amount_needed_wei))))))))))))
          else ret (Next, amount_needed_wei))
       else ret (Next, amount_needed_wei)))))"

text \<open>
  One iteration: the \<open>try\<close> with its \<open>except Exception: ... continue\<close>. The iteration
  itself never raises.
\<close>

definition process_rule ::
  "'w env \<Rightarrow> nat \<Rightarrow> address \<Rightarrow> auto_fund_rule \<Rightarrow> int \<Rightarrow> 'w \<Rightarrow> (control \<times> int) \<times> 'w \<times> effect list" where
  "process_rule env loan_id borrower_address rule amount_needed_wei w =
     (case rule_body env loan_id borrower_address rule amount_needed_wei w of
        (Inl e, w', es) \<Rightarrow> ((Next, amount_needed_wei), w', es)
      | (Inr r, w', es) \<Rightarrow> (r, w', es))"

text \<open>The \<open>for\<close> loop; it returns the final \<open>amount_needed_wei\<close>.\<close>

fun rules_loop ::
  "'w env \<Rightarrow> nat \<Rightarrow> address \<Rightarrow> auto_fund_rule list \<Rightarrow> int \<Rightarrow> 'w \<Rightarrow> int \<times> 'w \<times> effect list" where
  "rules_loop env loan_id borrower_address [] amount_needed_wei w = (amount_needed_wei, w, [])"
| "rules_loop env loan_id borrower_address (rule # rest) amount_needed_wei w =
     (case process_rule env loan_id borrower_address rule amount_needed_wei w of
        ((Halt, needed), w', es) \<Rightarrow> (needed, w', es)
      | ((Next, needed), w', es) \<Rightarrow>
          (case rules_loop env loan_id borrower_address rest needed w' of
             (needed', w'', es') \<Rightarrow> (needed', w'', es @ es')))"

definition handle_auto_fund :: "'w env \<Rightarrow> loan_requested_args \<Rightarrow> ('w, unit) action" where
  "handle_auto_fund env event =
     (let loan_id = loanId event; borrower_address = borrower event in
      andthen (call (query_rules env)) (\<lambda>rows.
      (let active_rules = filter is_active rows in
       if active_rules = [] then ret ()
       else
         andthen (call (getLoan env loan_id)) (\<lambda>loan.
         (let amount_needed_wei = amount_requested loan - amount_funded loan in
          if amount_needed_wei \<le> 0 then ret ()
          else (\<lambda>w. case rules_loop env loan_id borrower_address active_rules amount_needed_wei w of
                  (needed, w', es) \<Rightarrow> (Inr (), w', es)))))))"

text \<open>
  The amounts of the fund transactions that \<open>handle_auto_fund\<close> saw confirmed: those
  whose receipt came back with status 1.
\<close>

fun confirmed_amounts :: "effect list \<Rightarrow> int list" where
  "confirmed_amounts (SendRawTransaction tx # Receipt status # es) =
     (if status = 1 then tx_amount_wei tx # confirmed_amounts es else confirmed_amounts es)"
| "confirmed_amounts (e # es) = confirmed_amounts es"
| "confirmed_amounts [] = []"

subsection \<open>The other handlers\<close>






subsection \<open>check_for_potential_defaults\<close>




subsection \<open>listen_for_events\<close>






subsection \<open>A concrete environment\<close>

text \<open>
  An environment to run the agent in. Its world is the wall clock in seconds; the ledger
  holds the given loans and savings (a read of which may raise) and does not change;
  every receipt has the given status; the socket is connected or not (when it is not,
  \<open>sio.emit\<close> raises \<open>BadNamespaceError\<close>). Amounts convert exactly: \<open>from_wei\<close> divides by \<open>10^18\<close> and
  refuses what is outside \<open>0 .. 2^256 - 1\<close>, as the library does, and no rounding happens.
\<close>

record scenario =
  sc_rules :: "auto_fund_rule list"
  sc_total_loans :: "exn + nat"
  sc_loans :: "nat \<Rightarrow> exn + loan_data"
  sc_due_date :: "nat \<Rightarrow> int"
  sc_savings :: "address \<Rightarrow> exn + int"
  sc_status :: int
  sc_connected :: bool
  sc_requested :: "exn + loan_requested_args list"

definition exact_from_wei :: "int \<Rightarrow> exn + real" where
  "exact_from_wei n =
     (if n = 0 then Inr 0
      else if n < 0 \<or> n > 2 ^ 256 - 1 then Inl (Exception ''ValueError'')
      else Inr (of_int n / 10 ^ 18))"

definition exact_to_wei :: "real \<Rightarrow> exn + int" where
  "exact_to_wei x =
     (let v = \<lfloor>x * 10 ^ 18\<rfloor> in
      if v < 0 \<or> v > 2 ^ 256 - 1 then Inl (Exception ''ValueError'') else Inr v)"

definition scenario_env :: "scenario \<Rightarrow> nat env" where
  "scenario_env sc =
     \<lparr>agent_address = ''0xA9e17'',
      query_rules = (\<lambda>w. (Inr (sc_rules sc), w)),
      getLoan = (\<lambda>i w. (sc_loans sc i, w)),
      getMember = (\<lambda>a w. (case sc_savings sc a of
                           Inl e \<Rightarrow> Inl e
                         | Inr s \<Rightarrow> Inr \<lparr>member_is_active = True, member_component_1 = 0,
                                          total_savings = s,
                                          amount_lent_out = 0, locked_collateral = 0,
                                          available_savings = s\<rparr>, w)),
      getInstallment = (\<lambda>i k w. (Inr \<lparr>due_date = sc_due_date sc i, amount_due = 0,
                                       late_fees = 0, is_paid = False\<rparr>, w)),
      getTotalLoans = (\<lambda>w. (sc_total_loans sc, w)),
      from_wei = exact_from_wei,
      float_of = (\<lambda>x. x),
      to_wei = exact_to_wei,
      get_transaction_count = (\<lambda>a w. (Inr 0, w)),
      gas_price = (\<lambda>w. (Inr 1, w)),
      build_transaction = (\<lambda>tx w. (Inr (), w)),
      sign_transaction = (\<lambda>tx. Inr ()),
      send_raw_transaction = (\<lambda>tx w. (Inr 0, w)),
      wait_for_transaction_receipt = (\<lambda>h w. (Inr (sc_status sc), w)),
      sio_emit = (\<lambda>n w. (if sc_connected sc then Inr () else Inl (Exception ''BadNamespaceError''), w)),
      model_available = False,
      generate_content = (\<lambda>w. (Inl (Exception ''unavailable''), w)),
      time_time = (\<lambda>w. (of_nat w, w)),
      time_sleep = (\<lambda>n w. w + n),
      loan_requested_entries = (\<lambda>w. (sc_requested sc, w)),
      application_entries = (\<lambda>w. (Inr [], w)),
      loan_funded_entries = (\<lambda>w. (Inr [], w)),
      loan_disbursed_entries = (\<lambda>w. (Inr [], w))\<rparr>"

definition ether :: "int \<Rightarrow> int" where
  "ether n = n * 10 ^ 18"

definition open_loan :: "address \<Rightarrow> int \<Rightarrow> loan_data" where
  "open_loan b requested =
     \<lparr>loan_borrower = b, amount_requested = requested, amount_funded = 0,
      collateral_locked = 0, total_interest = 0, loan_is_active = False,
      is_defaulted = False, next_installment_index = 0, created_at = 0\<rparr>"

definition running_loan :: "bool \<Rightarrow> nat \<Rightarrow> loan_data" where
  "running_loan defaulted idx =
     \<lparr>loan_borrower = ''0xB0b'', amount_requested = ether 100, amount_funded = ether 100,
      collateral_locked = 0, total_interest = 0, loan_is_active = True,
      is_defaulted = defaulted, next_installment_index = idx, created_at = 0\<rparr>"

definition lending_rule :: "address \<Rightarrow> real \<Rightarrow> real \<Rightarrow> auto_fund_rule" where
  "lending_rule a max_fund min_savings =
     \<lparr>rule_id = 0, user_address = a, max_fund_amount = max_fund,
      min_savings_balance = min_savings, is_active = True\<rparr>"

text \<open>
  Scenario A of the specification: a loan of \<open>0xB0b\<close> needing 100, and two active rules
  (at most 60, and at most 50) of lenders with 200 available each.
\<close>

definition scenario_A :: "int \<Rightarrow> bool \<Rightarrow> scenario" where
  "scenario_A status socket_up =
     \<lparr>sc_rules = [lending_rule ''0xA11ce'' 60 10, lending_rule ''0xCa401'' 50 10],
      sc_total_loans = Inr 1,
      sc_loans = (\<lambda>i. Inr (open_loan ''0xB0b'' (ether 100))),
      sc_due_date = (\<lambda>i. 0),
      sc_savings = (\<lambda>a. Inr (ether 200)),
      sc_status = status,
      sc_connected = socket_up,
      sc_requested = Inr [\<lparr>loanId = 0, borrower = ''0xB0b''\<rparr>]\<rparr>"

text \<open>Scenario A with the first lender's ledger read failing.\<close>

definition scenario_read_fails :: scenario where
  "scenario_read_fails =
     (scenario_A 1 True)\<lparr>sc_savings :=
        (\<lambda>a. if a = ''0xA11ce'' then Inl (Exception ''ConnectionError'') else Inr (ether 200))\<rparr>"


definition trigger_A :: loan_requested_args where
  "trigger_A = \<lparr>loanId = 0, borrower = ''0xB0b''\<rparr>"

definition tx_of :: "int \<Rightarrow> fund_tx" where
  "tx_of amount =
     \<lparr>tx_loan_id = 0, tx_amount_wei = amount, tx_from = ''0xA9e17'', tx_nonce = 0, tx_gas_price = 1\<rparr>"








section \<open>Properties of handle_auto_fund\<close>

lemmas action_defs = ret_def call_def compute_def record_effect_def andthen_def emit_def

lemmas scenario_defs =
  scenario_env_def scenario_A_def trigger_A_def tx_of_def lending_rule_def open_loan_def
  running_loan_def ether_def exact_from_wei_def exact_to_wei_def float_from_wei_def lower_def
  lower_char_def


lemmas auto_fund_defs = handle_auto_fund_def process_rule_def rule_body_def Let_def

text \<open>A rule whose address is the borrower's, up to letter case, is passed over untouched.\<close>

lemma process_rule_own_loan:
  "lower (user_address rule) = lower borrower_address \<Longrightarrow>
   process_rule env loan_id borrower_address rule needed w = ((Next, needed), w, [])"
  by (simp add: process_rule_def rule_body_def ret_def)

text \<open>
  When the socket is up, Scenario A runs as the specification says: 60, then 40, and the
  loop halts with nothing left to fund.
\<close>

lemma scenario_A_socket_up:
  "rules_loop (scenario_env (scenario_A 1 True)) 0 ''0xB0b''
     [lending_rule ''0xA11ce'' 60 10, lending_rule ''0xCa401'' 50 10] (ether 100) 0 =
   (0, 0, [SendRawTransaction (tx_of (ether 60)), Receipt 1,
           Emit (Notification (AutoFundInvested 60 0) (Some success)),
           SendRawTransaction (tx_of (ether 40)), Receipt 1,
           Emit (Notification (AutoFundInvested 40 0) (Some success))])"
  by (simp add: auto_fund_defs action_defs scenario_defs)

text \<open>
  C1. Claimed: the amounts of the fund transactions confirmed for one trigger never add up
  to more than the loan needs, because each confirmed amount is taken off
  \<open>amount_needed_wei\<close> and the loop halts at zero. In the code \<open>sio.emit\<close> stands between
  the confirmation and the subtraction, inside the \<open>try\<close>. Here Scenario A is run with the
  socket disconnected: the loan needs 100, the first rule's 60 are confirmed, the emit
  raises, the subtraction is skipped, and the second rule funds its full 50. The confirmed
  amounts add up to 110.
\<close>

theorem confirmed_sum_exceeds_need:
  "fst (getLoan (scenario_env (scenario_A 1 False)) (loanId trigger_A) 0)
     = Inr (open_loan ''0xB0b'' (ether 100)) \<and>
   amount_requested (open_loan ''0xB0b'' (ether 100)) - amount_funded (open_loan ''0xB0b'' (ether 100))
     = ether 100 \<and>
   confirmed_amounts (snd (snd (handle_auto_fund (scenario_env (scenario_A 1 False)) trigger_A 0)))
     = [ether 60, ether 50] \<and>
   sum_list (confirmed_amounts (snd (snd (handle_auto_fund (scenario_env (scenario_A 1 False)) trigger_A 0))))
     > ether 100"
  by (simp add: auto_fund_defs action_defs scenario_defs)

text \<open>
  C2. Claimed: when the success notification cannot be published, the confirmed amount is
  still taken off \<open>amount_needed_wei\<close> and the loop still halts at zero. In the code the
  exception of \<open>sio.emit\<close> goes to the \<open>except\<close> of the rule, past the subtraction and the
  \<open>break\<close>. Here a rule allowing 100 funds all of a loan needing 100 and the receipt has
  status 1; with the socket disconnected the iteration ends with the full 100 still
  needed and goes on to the next rule.
\<close>

theorem emit_failure_loses_decrement:
  "process_rule (scenario_env (scenario_A 1 False)) 0 ''0xB0b''
     (lending_rule ''0xA11ce'' 100 10) (ether 100) 0 =
   ((Next, ether 100), 0,
    [SendRawTransaction (tx_of (ether 100)), Receipt 1,
     Emit (Notification (AutoFundInvested 100 0) (Some success))])"
  by (simp add: auto_fund_defs action_defs scenario_defs)

text \<open>The same iteration with the socket connected: nothing is left and the loop halts.\<close>

lemma emit_success_keeps_decrement:
  "process_rule (scenario_env (scenario_A 1 True)) 0 ''0xB0b''
     (lending_rule ''0xA11ce'' 100 10) (ether 100) 0 =
   ((Halt, 0), 0,
    [SendRawTransaction (tx_of (ether 100)), Receipt 1,
     Emit (Notification (AutoFundInvested 100 0) (Some success))])"
  by (simp add: auto_fund_defs action_defs scenario_defs)

text \<open>One iteration in which a receipt with a status other than 1 came back.\<close>

lemma reverted_iteration:
  assumes "process_rule env loan_id borrower_address rule needed w = ((ctl, needed'), w', es)"
    and "Receipt status \<in> set es" and "status \<noteq> 1"
  shows "Emit (Notification (AutoFundFailed loan_id) (Some alert)) \<in> set es \<and>
         needed' = needed \<and> ctl = Next"
  using assms unfolding process_rule_def rule_body_def action_defs Let_def
  by (auto split: prod.splits sum.splits if_splits)

text \<open>
  C3. If the receipt of the transaction sent for a rule has a status other than 1, the
  alert \<open>sio.emit\<close> is called, \<open>amount_needed_wei\<close> keeps its value, and the loop goes on
  with the rules after this one (whether the alert emit returns or raises).
\<close>

theorem reverted_alerts_and_continues:
  assumes "Receipt status \<in> set (snd (snd (process_rule env loan_id borrower_address rule needed w)))"
    and "status \<noteq> 1"
  shows "Emit (Notification (AutoFundFailed loan_id) (Some alert))
           \<in> set (snd (snd (process_rule env loan_id borrower_address rule needed w))) \<and>
         fst (process_rule env loan_id borrower_address rule needed w) = (Next, needed) \<and>
         rules_loop env loan_id borrower_address (rule # rest) needed w =
           (case process_rule env loan_id borrower_address rule needed w of
              (r, w', es) \<Rightarrow>
                (case rules_loop env loan_id borrower_address rest needed w' of
                   (needed', w'', es') \<Rightarrow> (needed', w'', es @ es')))"
proof -
  obtain ctl needed' w' es
    where p: "process_rule env loan_id borrower_address rule needed w = ((ctl, needed'), w', es)"
    by (metis prod.collapse)
  from assms p have "Receipt status \<in> set es" by simp
  from reverted_iteration [OF p this assms(2)] p show ?thesis by simp
qed

theorem reverted_alerts_and_continues_witness:
  "Receipt 0 \<in> set (snd (snd (process_rule (scenario_env (scenario_A 0 True)) 0 ''0xB0b''
                                 (lending_rule ''0xA11ce'' 60 10) (ether 100) 0))) \<and>
   Emit (Notification (AutoFundFailed 0) (Some alert))
     \<in> set (snd (snd (process_rule (scenario_env (scenario_A 0 True)) 0 ''0xB0b''
                         (lending_rule ''0xA11ce'' 60 10) (ether 100) 0))) \<and>
   fst (process_rule (scenario_env (scenario_A 0 True)) 0 ''0xB0b''
          (lending_rule ''0xA11ce'' 60 10) (ether 100) 0) = (Next, ether 100)"
proof -
  have h: "Receipt 0 \<in> set (snd (snd (process_rule (scenario_env (scenario_A 0 True)) 0 ''0xB0b''
                                 (lending_rule ''0xA11ce'' 60 10) (ether 100) 0)))"
    by (simp add: auto_fund_defs action_defs scenario_defs)
  have n: "(0::int) \<noteq> 1" by simp
  show ?thesis
    using h reverted_alerts_and_continues [OF h n, of "[]"] by simp
qed

text \<open>
  C4. If the loan that \<open>handle_auto_fund\<close> fetches has at least as much funded as
  requested, the handler returns without any effect: no transaction is sent for any rule,
  and the world is left as the fetches left it (no member is even read).
\<close>

theorem fully_funded_is_noop:
  assumes "query_rules env w = (Inr rows, w1)"
    and "getLoan env (loanId event) w1 = (Inr loan, w2)"
    and "amount_funded loan \<ge> amount_requested loan"
  shows "handle_auto_fund env event w =
           (Inr (), if filter is_active rows = [] then w1 else w2, [])"
  using assms unfolding handle_auto_fund_def action_defs Let_def by simp

theorem fully_funded_is_noop_witness:
  "handle_auto_fund
     (scenario_env ((scenario_A 1 True)\<lparr>sc_loans := (\<lambda>i. Inr (running_loan False 0))\<rparr>))
     trigger_A 0 = (Inr (), 0, [])"
proof -
  let ?env = "scenario_env ((scenario_A 1 True)\<lparr>sc_loans := (\<lambda>i. Inr (running_loan False 0))\<rparr>)"
  have q: "query_rules ?env 0 =
             (Inr [lending_rule ''0xA11ce'' 60 10, lending_rule ''0xCa401'' 50 10], 0)"
    by (simp add: scenario_defs)
  have l: "getLoan ?env (loanId trigger_A) 0 = (Inr (running_loan False 0), 0)"
    by (simp add: scenario_defs)
  have f: "amount_funded (running_loan False 0) \<ge> amount_requested (running_loan False 0)"
    by (simp add: scenario_defs)
  show ?thesis
    using fully_funded_is_noop [OF q l f] by (simp add: scenario_defs)
qed





text \<open>
  C6. A rule whose \<open>user_address\<close> is the borrower of the triggering loan is skipped
  whatever its other fields: the iteration has no effect at all (no transaction, not even
  a ledger read) and \<open>amount_needed_wei\<close> is unchanged. The code compares the two
  addresses after \<open>lower()\<close> (lemma \<open>process_rule_own_loan\<close>); equal addresses are
  the case claimed.
\<close>

theorem own_loan_rule_skipped:
  assumes "user_address rule = borrower_address"
  shows "process_rule env loan_id borrower_address rule needed w = ((Next, needed), w, [])"
  using assms by (simp add: process_rule_own_loan)

theorem own_loan_rule_skipped_witness:
  "user_address (lending_rule ''0xB0b'' 1000 0) = ''0xB0b'' \<and>
   process_rule (scenario_env (scenario_A 1 True)) 0 ''0xB0b'' (lending_rule ''0xB0b'' 1000 0)
     (ether 100) 0 = ((Next, ether 100), 0, [])"
proof -
  have h: "user_address (lending_rule ''0xB0b'' 1000 0) = ''0xB0b''"
    by (simp add: lending_rule_def)
  show ?thesis
    using h own_loan_rule_skipped [OF h, of "scenario_env (scenario_A 1 True)" 0 "ether 100" 0]
    by simp
qed

text \<open>
  C7. An exception raised anywhere in the \<open>try\<close> of one rule is caught there: the
  iteration ends as a skip with \<open>amount_needed_wei\<close> unchanged, and the loop goes on
  with all the rules after this one. (\<open>process_rule\<close> and \<open>rules_loop\<close> have no
  exceptional result at all: no exception of a rule leaves the loop.)
\<close>

theorem rule_exception_is_a_skip:
  assumes "rule_body env loan_id borrower_address rule needed w = (Inl e, w', es)"
  shows "process_rule env loan_id borrower_address rule needed w = ((Next, needed), w', es) \<and>
         rules_loop env loan_id borrower_address (rule # rest) needed w =
           (case rules_loop env loan_id borrower_address rest needed w' of
              (needed', w'', es') \<Rightarrow> (needed', w'', es @ es'))"
  using assms by (simp add: process_rule_def)

theorem rule_exception_is_a_skip_witness:
  "rule_body (scenario_env scenario_read_fails) 0 ''0xB0b'' (lending_rule ''0xA11ce'' 60 10)
     (ether 100) 0 = (Inl (Exception ''ConnectionError''), 0, []) \<and>
   rules_loop (scenario_env scenario_read_fails) 0 ''0xB0b''
     [lending_rule ''0xA11ce'' 60 10, lending_rule ''0xCa401'' 50 10] (ether 100) 0 =
   (ether 50, 0, [SendRawTransaction (tx_of (ether 50)), Receipt 1,
                  Emit (Notification (AutoFundInvested 50 0) (Some success))])"
proof -
  have h: "rule_body (scenario_env scenario_read_fails) 0 ''0xB0b'' (lending_rule ''0xA11ce'' 60 10)
             (ether 100) 0 = (Inl (Exception ''ConnectionError''), 0, [])"
    by (simp add: auto_fund_defs action_defs scenario_defs scenario_read_fails_def)
  have r: "rules_loop (scenario_env scenario_read_fails) 0 ''0xB0b''
             [lending_rule ''0xCa401'' 50 10] (ether 100) 0 =
           (ether 50, 0, [SendRawTransaction (tx_of (ether 50)), Receipt 1,
                          Emit (Notification (AutoFundInvested 50 0) (Some success))])"
    by (simp add: auto_fund_defs action_defs scenario_defs scenario_read_fails_def)
  show ?thesis
    using h r rule_exception_is_a_skip [OF h, of "[lending_rule ''0xCa401'' 50 10]"]
    by simp
qed

subsection \<open>The confirmed amounts when every notification is delivered\<close>

text \<open>
  The effects of one iteration are nothing, or a transaction sent whose receipt never
  came, or a transaction, its receipt and the notification.
\<close>

lemma iteration_shape:
  "snd (snd (process_rule env loan_id borrower_address rule needed w)) = [] \<or>
   (\<exists>tx. snd (snd (process_rule env loan_id borrower_address rule needed w)) = [SendRawTransaction tx]) \<or>
   (\<exists>tx status n. snd (snd (process_rule env loan_id borrower_address rule needed w)) =
      [SendRawTransaction tx, Receipt status, Emit n])"
  unfolding process_rule_def rule_body_def action_defs Let_def
  by (auto split: prod.splits sum.splits if_splits)

text \<open>
  When \<open>sio.emit\<close> never raises, an iteration either confirms nothing and leaves
  \<open>amount_needed_wei\<close> alone, or confirms one amount, subtracts it, and halts exactly
  when nothing more is needed.
\<close>

lemma iteration_when_emits_return:
  assumes "\<And>n w. fst (sio_emit env n w) = Inr ()"
    and "process_rule env loan_id borrower_address rule needed w = ((ctl, needed'), w', es)"
  shows "(confirmed_amounts es = [] \<and> needed' = needed \<and> ctl = Next) \<or>
         (\<exists>a x. confirmed_amounts es = [a] \<and> needed' = needed - a \<and>
                (ctl = Halt \<longleftrightarrow> needed' \<le> 0) \<and>
                float_from_wei env needed = Inr x \<and>
                to_wei env (min (max_fund_amount rule) x) = Inr a)"
proof -
  have e: "\<And>n w r w'. sio_emit env n w = (r, w') \<Longrightarrow> r = Inr ()"
    using assms(1) by (metis fst_conv)
  show ?thesis
    using assms(2) unfolding process_rule_def rule_body_def action_defs Let_def
    by (auto split: prod.splits sum.splits if_splits dest: e)
qed

lemma confirmed_amounts_append:
  assumes "es = [] \<or> (\<exists>tx. es = [SendRawTransaction tx]) \<or>
           (\<exists>tx status n. es = [SendRawTransaction tx, Receipt status, Emit n])"
    and "es' = [] \<or> (\<exists>tx rest. es' = SendRawTransaction tx # rest)"
  shows "confirmed_amounts (es @ es') = confirmed_amounts es @ confirmed_amounts es'"
  using assms by auto

lemma loop_shape:
  "snd (snd (rules_loop env loan_id borrower_address rules needed w)) = [] \<or>
   (\<exists>tx rest. snd (snd (rules_loop env loan_id borrower_address rules needed w)) =
      SendRawTransaction tx # rest)"
proof (induction rules arbitrary: needed w)
  case Nil
  show ?case by simp
next
  case (Cons rule rules)
  obtain ctl needed' w' es
    where p: "process_rule env loan_id borrower_address rule needed w = ((ctl, needed'), w', es)"
    by (metis prod.collapse)
  obtain needed'' w'' es'
    where r: "rules_loop env loan_id borrower_address rules needed' w' = (needed'', w'', es')"
    by (metis prod.collapse)
  from iteration_shape [of env loan_id borrower_address rule needed w] p
  have s: "es = [] \<or> (\<exists>tx rest. es = SendRawTransaction tx # rest)" by auto
  from Cons.IH [of needed' w'] r
  have s': "es' = [] \<or> (\<exists>tx rest. es' = SendRawTransaction tx # rest)" by simp
  show ?case
  proof (cases ctl)
    case Next
    with p r s s' show ?thesis by auto
  next
    case Halt
    with p s show ?thesis by auto
  qed
qed

text \<open>
  So, when \<open>sio.emit\<close> never raises and the conversion from wei to ether and back never
  returns more than it was given, the confirmed amounts of one trigger add up to what was
  taken off \<open>amount_needed_wei\<close>, which is at most what the loan needed. Nothing in
  \<open>handle_auto_fund\<close> ensures either condition.
\<close>

lemma loop_sum_when_emits_return:
  assumes emits: "\<And>n w. fst (sio_emit env n w) = Inr ()"
    and conv: "\<And>n m x a. float_from_wei env n = Inr x \<Longrightarrow> to_wei env (min m x) = Inr a \<Longrightarrow> a \<le> n"
  shows "0 < needed \<Longrightarrow>
         rules_loop env loan_id borrower_address rules needed w = (needed', w', es) \<Longrightarrow>
         sum_list (confirmed_amounts es) = needed - needed' \<and> 0 \<le> needed'"
proof (induction rules arbitrary: needed w needed' w' es)
  case Nil
  then show ?case by simp
next
  case (Cons rule rules)
  obtain ctl n1 w1 es1
    where p: "process_rule env loan_id borrower_address rule needed w = ((ctl, n1), w1, es1)"
    by (metis prod.collapse)
  obtain n2 w2 es2
    where r: "rules_loop env loan_id borrower_address rules n1 w1 = (n2, w2, es2)"
    by (metis prod.collapse)
  from iteration_when_emits_return [OF emits p] conv
  have i: "sum_list (confirmed_amounts es1) = needed - n1 \<and> 0 \<le> n1 \<and> (ctl = Next \<longrightarrow> 0 < n1)"
    using Cons.prems(1) by (cases ctl) fastforce+
  show ?case
  proof (cases ctl)
    case Halt
    with p i Cons.prems(2) show ?thesis by auto
  next
    case Next
    with i have "0 < n1" by simp
    from Cons.IH [OF this r] have ih: "sum_list (confirmed_amounts es2) = n1 - n2 \<and> 0 \<le> n2" .
    have "confirmed_amounts (es1 @ es2) = confirmed_amounts es1 @ confirmed_amounts es2"
      using iteration_shape [of env loan_id borrower_address rule needed w] p
        loop_shape [of env loan_id borrower_address rules n1 w1] r
      by (intro confirmed_amounts_append) simp_all
    with Next p r i ih Cons.prems(2) show ?thesis by auto
  qed
qed

lemma confirmed_sum_when_emits_return:
  assumes "\<And>n w. fst (sio_emit env n w) = Inr ()"
    and "\<And>n m x a. float_from_wei env n = Inr x \<Longrightarrow> to_wei env (min m x) = Inr a \<Longrightarrow> a \<le> n"
    and "query_rules env w = (Inr rows, w1)"
    and "getLoan env (loanId event) w1 = (Inr loan, w2)"
  shows "sum_list (confirmed_amounts (snd (snd (handle_auto_fund env event w))))
           \<le> max 0 (amount_requested loan - amount_funded loan)"
proof (cases "filter is_active rows = [] \<or> amount_requested loan - amount_funded loan \<le> 0")
  case True
  with assms(3,4) show ?thesis
    unfolding handle_auto_fund_def action_defs Let_def by auto
next
  case False
  obtain n' w' es where r: "rules_loop env (loanId event) (borrower event) (filter is_active rows)
      (amount_requested loan - amount_funded loan) w2 = (n', w', es)"
    by (metis prod.collapse)
  from False have "0 < amount_requested loan - amount_funded loan" by simp
  from loop_sum_when_emits_return [OF assms(1,2) this r]
  have "sum_list (confirmed_amounts es) \<le> amount_requested loan - amount_funded loan" by simp
  moreover have "snd (snd (handle_auto_fund env event w)) = es"
    using False assms(3,4) r unfolding handle_auto_fund_def action_defs Let_def by simp
  ultimately show ?thesis by simp
qed

text \<open>The concrete environment meets both conditions when its socket is connected.\<close>

lemma exact_conversion_within_need:
  assumes "float_from_wei (scenario_env sc) n = Inr x"
    and "to_wei (scenario_env sc) (min m x) = Inr a"
  shows "a \<le> n"
proof -
  have x: "x * 10 ^ 18 = of_int n"
    using assms(1) by (auto simp: scenario_defs split: if_splits)
  have "a = \<lfloor>min m x * 10 ^ 18\<rfloor>"
    using assms(2) by (auto simp: scenario_defs Let_def split: if_splits)
  also have "\<dots> \<le> \<lfloor>x * 10 ^ 18\<rfloor>"
    by (intro floor_mono mult_right_mono) simp_all
  also have "\<dots> = n" using x by simp
  finally show ?thesis .
qed

lemma scenario_sum_within_need:
  assumes "sc_connected sc"
    and "sc_loans sc (loanId event) = Inr loan"
  shows "sum_list (confirmed_amounts (snd (snd (handle_auto_fund (scenario_env sc) event w))))
           \<le> max 0 (amount_requested loan - amount_funded loan)"
proof (rule confirmed_sum_when_emits_return)
  show "\<And>n w. fst (sio_emit (scenario_env sc) n w) = Inr ()"
    using assms(1) by (simp add: scenario_env_def)
  show "\<And>n m x a. float_from_wei (scenario_env sc) n = Inr x \<Longrightarrow>
          to_wei (scenario_env sc) (min m x) = Inr a \<Longrightarrow> a \<le> n"
    by (rule exact_conversion_within_need)
  show "query_rules (scenario_env sc) w = (Inr (sc_rules sc), w)"
    by (simp add: scenario_env_def)
  show "getLoan (scenario_env sc) (loanId event) w = (Inr loan, w)"
    using assms(2) by (simp add: scenario_env_def)
qed

section \<open>Properties of check_for_potential_defaults\<close>























section \<open>Properties of listen_for_events\<close>





end
